theory Spec2Isabelle
  imports Complex_Main
begin

section \<open>Linear regression from scratch: the notebook's numeric core\<close>

text \<open>
  The notebook \<^verbatim>\<open>Linear-Regression-Scratch.ipynb\<close> generates synthetic data, defines a
  linear predictor \<^verbatim>\<open>net\<close>, a loss \<^verbatim>\<open>square_loss\<close>, a gradient \<^verbatim>\<open>get_gradient\<close> and a
  gradient-descent loop, all on numpy arrays.

  Numbers: numpy's float64 entries are idealised as exact reals, so rounding, overflow and
  underflow are outside the model, and a decimal literal such as \<^verbatim>\<open>3.4\<close> is the
  rational \<open>34 / 10\<close>. The one non-number the code can produce without raising that the
  model keeps is \<^verbatim>\<open>nan\<close> as the mean of an empty array.
\<close>

subsection \<open>Arrays of rank 0, 1 and 2\<close>

text \<open>
  \<open>Mat c rows\<close> is a two-dimensional array with \<open>length rows\<close> rows and \<open>c\<close> columns; the
  column count is stored because an array of shape \<open>(0, c)\<close> has no row to read it from.
  numpy arrays are rectangular: \<open>rectangular\<close> says so.
\<close>

datatype ndarray = Scalar real | Vec "real list" | Mat nat "real list list"

datatype fscalar = Finite real | NaN

datatype error =
    DimensionMismatch   \<comment> \<open>ValueError: operands could not be broadcast / shapes not aligned\<close>
  | EmptyReduction      \<comment> \<open>ValueError: zero-size array to reduction operation maximum\<close>
  | ZeroDivision        \<comment> \<open>ZeroDivisionError: float division by zero\<close>
  | Unsized             \<comment> \<open>TypeError: len() of unsized object\<close>
  | IndexOutOfBounds    \<comment> \<open>IndexError\<close>
  | NonFinite           \<comment> \<open>no exception: the array now holds inf or nan, which the model cannot hold\<close>

fun rectangular :: "ndarray \<Rightarrow> bool" where
  "rectangular (Mat c rows) = list_all (\<lambda>r. length r = c) rows"
| "rectangular _ = True"

definition ebind :: "error + 'a \<Rightarrow> ('a \<Rightarrow> error + 'b) \<Rightarrow> error + 'b" where
  "ebind m f = (case m of Inl e \<Rightarrow> Inl e | Inr x \<Rightarrow> f x)"

fun rank :: "ndarray \<Rightarrow> nat" where
  "rank (Scalar x) = 0"
| "rank (Vec xs) = 1"
| "rank (Mat c rows) = 2"

text \<open>Every array seen as rows: a scalar is \<open>1 \<times> 1\<close>, a vector is one row.\<close>

fun as_rows :: "ndarray \<Rightarrow> real list list" where
  "as_rows (Scalar x) = [[x]]"
| "as_rows (Vec xs) = [xs]"
| "as_rows (Mat c rows) = rows"

fun nrows :: "ndarray \<Rightarrow> nat" where
  "nrows (Scalar x) = 1"
| "nrows (Vec xs) = 1"
| "nrows (Mat c rows) = length rows"

fun ncols :: "ndarray \<Rightarrow> nat" where
  "ncols (Scalar x) = 1"
| "ncols (Vec xs) = length xs"
| "ncols (Mat c rows) = c"

definition of_rows :: "nat \<Rightarrow> nat \<Rightarrow> real list list \<Rightarrow> ndarray" where
  "of_rows k c rows =
     (if k = 0 then Scalar (hd (hd rows)) else if k = 1 then Vec (hd rows) else Mat c rows)"

fun map_nd :: "(real \<Rightarrow> real) \<Rightarrow> ndarray \<Rightarrow> ndarray" where
  "map_nd f (Scalar x) = Scalar (f x)"
| "map_nd f (Vec xs) = Vec (map f xs)"
| "map_nd f (Mat c rows) = Mat c (map (map f) rows)"

definition elems :: "ndarray \<Rightarrow> real list" where
  "elems a = concat (as_rows a)"

subsection \<open>Broadcasting of element-wise binary operators\<close>

text \<open>
  numpy aligns shapes on the right; two sizes of one axis are compatible when they are
  equal or one of them is 1, and the axis of size 1 is stretched to the other size.
\<close>

definition bdim :: "nat \<Rightarrow> nat \<Rightarrow> nat option" where
  "bdim m n = (if m = n then Some m else if m = 1 then Some n else if n = 1 then Some m else None)"

definition stretch :: "nat \<Rightarrow> 'a list \<Rightarrow> 'a list" where
  "stretch n xs = (if length xs = n then xs else replicate n (hd xs))"

definition stretch2 :: "nat \<Rightarrow> nat \<Rightarrow> real list list \<Rightarrow> real list list" where
  "stretch2 r c rows = stretch r (map (stretch c) rows)"

definition broadcast :: "(real \<Rightarrow> real \<Rightarrow> real) \<Rightarrow> ndarray \<Rightarrow> ndarray \<Rightarrow> error + ndarray" where
  "broadcast f a b =
     (case (bdim (nrows a) (nrows b), bdim (ncols a) (ncols b)) of
        (Some r, Some c) \<Rightarrow>
          Inr (of_rows (max (rank a) (rank b)) c
                 (map2 (map2 f) (stretch2 r c (as_rows a)) (stretch2 r c (as_rows b))))
      | _ \<Rightarrow> Inl DimensionMismatch)"

subsection \<open>dot, transpose, reductions, len, column selection\<close>

definition dotp :: "real list \<Rightarrow> real list \<Rightarrow> real" where
  "dotp xs ys = sum_list (map2 (*) xs ys)"

definition cols :: "nat \<Rightarrow> real list list \<Rightarrow> real list list" where
  "cols c rows = map (\<lambda>j. map (\<lambda>r. r ! j) rows) [0..<c]"

fun transpose_nd :: "ndarray \<Rightarrow> ndarray" where
  "transpose_nd (Mat c rows) = Mat (length rows) (cols c rows)"
| "transpose_nd a = a"

text \<open>
  \<^verbatim>\<open>a.dot(b)\<close>: with an operand of rank 0 it is element-wise multiplication; vector with
  vector is the inner product; otherwise the last axis of \<open>a\<close> is summed against the
  first axis of \<open>b\<close> (for a vector, its only axis), and the sizes must agree.
\<close>

fun dot :: "ndarray \<Rightarrow> ndarray \<Rightarrow> error + ndarray" where
  "dot (Scalar x) b = Inr (map_nd (\<lambda>v. x * v) b)"
| "dot a (Scalar y) = Inr (map_nd (\<lambda>v. v * y) a)"
| "dot (Vec xs) (Vec ys) =
     (if length xs = length ys then Inr (Scalar (dotp xs ys)) else Inl DimensionMismatch)"
| "dot (Vec xs) (Mat c rows) =
     (if length xs = length rows then Inr (Vec (map (dotp xs) (cols c rows)))
      else Inl DimensionMismatch)"
| "dot (Mat c rows) (Vec ys) =
     (if c = length ys then Inr (Vec (map (\<lambda>r. dotp r ys) rows)) else Inl DimensionMismatch)"
| "dot (Mat c rows) (Mat c' rows') =
     (if c = length rows' then Inr (Mat c' (map (\<lambda>r. map (dotp r) (cols c' rows')) rows))
      else Inl DimensionMismatch)"

definition np_sum :: "ndarray \<Rightarrow> real" where
  "np_sum a = sum_list (elems a)"

definition np_mean :: "ndarray \<Rightarrow> fscalar" where
  "np_mean a = (if elems a = [] then NaN else Finite (sum_list (elems a) / real (length (elems a))))"

definition np_max :: "ndarray \<Rightarrow> error + real" where
  "np_max a = (case elems a of [] \<Rightarrow> Inl EmptyReduction | x # xs \<Rightarrow> Inr (fold max xs x))"

fun len :: "ndarray \<Rightarrow> error + nat" where
  "len (Scalar x) = Inl Unsized"
| "len (Vec xs) = Inr (length xs)"
| "len (Mat c rows) = Inr (length rows)"

text \<open>\<^verbatim>\<open>X[:, j]\<close> for a literal \<open>j \<ge> 0\<close>.\<close>

fun column :: "ndarray \<Rightarrow> nat \<Rightarrow> error + ndarray" where
  "column (Mat c rows) j = (if j < c then Inr (Vec (map (\<lambda>r. r ! j) rows)) else Inl IndexOutOfBounds)"
| "column a j = Inl IndexOutOfBounds"

text \<open>\<^verbatim>\<open>X /= m\<close> for a scalar \<open>m\<close>: numpy divides by zero without raising, leaving inf or nan.\<close>

definition div_scalar :: "ndarray \<Rightarrow> real \<Rightarrow> error + ndarray" where
  "div_scalar a m = (if m = 0 then Inl NonFinite else Inr (map_nd (\<lambda>v. v / m) a))"

subsection \<open>The notebook's global variables\<close>

text \<open>
  The notebook is a sequence of cells over module-level variables. The record holds the
  ones the training cells read or write (\<^verbatim>\<open>X\<close>, \<^verbatim>\<open>y\<close>, \<^verbatim>\<open>w\<close>, \<^verbatim>\<open>b\<close>, \<^verbatim>\<open>lr\<close>,
  \<^verbatim>\<open>tolerance\<close>, \<^verbatim>\<open>epochs\<close>) and the lines printed so far. \<^verbatim>\<open>epochs % 3\<close> is
  Python's floored modulus, which is \<open>mod\<close> on \<open>int\<close>.
\<close>

datatype line = PrintConverged | PrintIteration int fscalar

record globals =
  var_X :: ndarray
  var_y :: ndarray
  var_w :: ndarray
  var_b :: ndarray
  var_lr :: real
  var_tolerance :: real
  var_epochs :: int
  printed :: "line list"

subsection \<open>Data generation\<close>

text \<open>
  The configuration constants of the first code cell, as a record so that the generator
  can be run at other sizes, and the notebook's own values.
\<close>

record config =
  num_examples :: nat
  input_mean :: "real list"
  input_variance :: "real list list"
  noise_mean :: real
  noise_variance :: real

definition notebook_config :: config where
  "notebook_config =
     \<lparr>num_examples = 10000, input_mean = [0, 0], input_variance = [[1, 0], [0, 1]],
      noise_mean = 0, noise_variance = 1 / 100\<rparr>"

text \<open>
  The random source: what \<^verbatim>\<open>np.random.multivariate_normal(mean, cov, size)\<close> and
  \<^verbatim>\<open>np.random.normal(loc, scale, size)\<close> return, as functions of their arguments
  (\<^verbatim>\<open>scale\<close> is numpy's name for the standard deviation). The distribution of the draws
  is not part of the model.
\<close>

record rng =
  multivariate_normal :: "real list \<Rightarrow> real list list \<Rightarrow> nat \<Rightarrow> ndarray"
  normal :: "real \<Rightarrow> real \<Rightarrow> nat \<Rightarrow> ndarray"

text \<open>\<^verbatim>\<open>def real_fn(X): return 2 * X[:, 0] - 3.4 * X[:, 1] + 4.2\<close>\<close>

definition real_fn :: "ndarray \<Rightarrow> error + ndarray" where
  "real_fn X =
     ebind (column X 0) (\<lambda>c0.
     ebind (column X 1) (\<lambda>c1.
     ebind (broadcast (-) (map_nd (\<lambda>v. 2 * v) c0) (map_nd (\<lambda>v. 34 / 10 * v) c1)) (\<lambda>d.
     Inr (map_nd (\<lambda>v. v + 42 / 10) d))))"

text \<open>
  \<^verbatim>\<open>
  X = np.random.multivariate_normal(input_mean, input_variance, num_examples)
  X /= np.max(X)
  noise = np.random.normal(noise_mean, noise_variance, num_examples)
  y = real_fn(X) + noise
  \<close>
  The result is the pair \<open>(X, y)\<close>.
\<close>

definition generate_data :: "config \<Rightarrow> rng \<Rightarrow> error + ndarray \<times> ndarray" where
  "generate_data cfg r =
     (let X0 = multivariate_normal r (input_mean cfg) (input_variance cfg) (num_examples cfg) in
      ebind (np_max X0) (\<lambda>m.
      ebind (div_scalar X0 m) (\<lambda>X.
      let noise = normal r (noise_mean cfg) (noise_variance cfg) (num_examples cfg) in
      ebind (real_fn X) (\<lambda>t.
      ebind (broadcast (+) t noise) (\<lambda>y.
      Inr (X, y))))))"

subsection \<open>Predictor, loss, gradient\<close>

text \<open>\<^verbatim>\<open>def net(X): return w.dot(X.transpose()) + b\<close>, reading the globals \<^verbatim>\<open>w\<close> and \<^verbatim>\<open>b\<close>.\<close>

definition net :: "globals \<Rightarrow> ndarray \<Rightarrow> error + ndarray" where
  "net g X = ebind (dot (var_w g) (transpose_nd X)) (\<lambda>p. broadcast (+) p (var_b g))"

text \<open>\<^verbatim>\<open>def square_loss(yhat, y): return np.mean((yhat - y) ** 2)\<close>\<close>

definition square_loss :: "ndarray \<Rightarrow> ndarray \<Rightarrow> error + fscalar" where
  "square_loss yhat y = ebind (broadcast (-) yhat y) (\<lambda>d. Inr (np_mean (map_nd (\<lambda>v. v ^ 2) d)))"

text \<open>
  \<^verbatim>\<open>
  def get_gradient(w, x, y):
      y_estimate = net(x)
      error = y - y_estimate
      gradient = -(1.0/len(x)) * error.dot(x)
      loss= square_loss(y, y_estimate)
      return gradient, loss
  \<close>
  The parameter \<^verbatim>\<open>w\<close> is not read: \<^verbatim>\<open>net\<close> uses the global. The left factor
  \<^verbatim>\<open>-(1.0/len(x))\<close> is evaluated before \<^verbatim>\<open>error.dot(x)\<close>.
\<close>

definition get_gradient :: "globals \<Rightarrow> ndarray \<Rightarrow> ndarray \<Rightarrow> ndarray \<Rightarrow> error + ndarray \<times> fscalar" where
  "get_gradient g w x y =
     ebind (net g x) (\<lambda>y_estimate.
     ebind (broadcast (-) y y_estimate) (\<lambda>err.
     ebind (len x) (\<lambda>n.
     if n = 0 then Inl ZeroDivision else
     ebind (dot err x) (\<lambda>d.
     let gradient = map_nd (\<lambda>v. - (1 / real n) * v) d in
     ebind (square_loss y y_estimate) (\<lambda>loss.
     Inr (gradient, loss))))))"

subsection \<open>The gradient-descent loop\<close>

text \<open>
  \<^verbatim>\<open>
  while True:
      gradient, loss = get_gradient(w, X, y)
      new_w = w - lr * gradient
      if np.sum(abs(new_w - w)) < tolerance:
          print("Converged.")
          break
      if epochs % 3 == 0:
          print("Iteration: %d - Loss: %.4f" %(epochs, loss))
      epochs += 1
      w = new_w
  \<close>
  One pass through the body either leaves the loop by \<^verbatim>\<open>break\<close> (\<open>CONVERGED\<close>) or
  reaches its end and goes round again (\<open>RUNNING\<close>). \<open>candidate\<close> is the first two
  statements of the body (it returns \<^verbatim>\<open>new_w\<close> and \<^verbatim>\<open>loss\<close>), \<open>weight_change\<close> is the
  left side of the stopping condition, \<^verbatim>\<open>np.sum(abs(new_w - w))\<close>.
\<close>

datatype status = RUNNING | CONVERGED

definition candidate :: "globals \<Rightarrow> error + ndarray \<times> fscalar" where
  "candidate g =
     ebind (get_gradient g (var_w g) (var_X g) (var_y g)) (\<lambda>(gradient, loss).
     ebind (broadcast (-) (var_w g) (map_nd (\<lambda>v. var_lr g * v) gradient)) (\<lambda>new_w.
     Inr (new_w, loss)))"

definition weight_change :: "ndarray \<Rightarrow> ndarray \<Rightarrow> error + real" where
  "weight_change new_w w = ebind (broadcast (-) new_w w) (\<lambda>d. Inr (np_sum (map_nd abs d)))"

definition gd_step :: "globals \<Rightarrow> error + status \<times> globals" where
  "gd_step g =
     ebind (candidate g) (\<lambda>(new_w, loss).
     ebind (weight_change new_w (var_w g)) (\<lambda>delta.
     if delta < var_tolerance g
     then Inr (CONVERGED, g\<lparr>printed := printed g @ [PrintConverged]\<rparr>)
     else Inr (RUNNING,
            g\<lparr>var_w := new_w,
              var_epochs := var_epochs g + 1,
              printed := (if var_epochs g mod 3 = 0
                          then printed g @ [PrintIteration (var_epochs g) loss]
                          else printed g)\<rparr>)))"

text \<open>The loop has no iteration bound: not returning is the value \<open>None\<close>.\<close>

partial_function (option) gd_loop :: "globals \<Rightarrow> (error + globals) option" where
  "gd_loop g =
     (case gd_step g of
        Inl e \<Rightarrow> Some (Inl e)
      | Inr sg \<Rightarrow> (if fst sg = CONVERGED then Some (Inr (snd sg)) else gd_loop (snd sg)))"

text \<open>
  The same loop cut off after \<open>k\<close> passes: it returns \<open>CONVERGED\<close> with the final state
  if the loop has left by then, and \<open>RUNNING\<close> with the state reached after \<open>k\<close> passes
  otherwise. It is used to speak of the state after any number of passes, also when the
  loop never ends.
\<close>

fun gd_passes :: "nat \<Rightarrow> globals \<Rightarrow> error + status \<times> globals" where
  "gd_passes 0 g = Inr (RUNNING, g)"
| "gd_passes (Suc k) g =
     (case gd_step g of
        Inl e \<Rightarrow> Inl e
      | Inr sg \<Rightarrow> (if fst sg = CONVERGED then Inr (CONVERGED, snd sg) else gd_passes k (snd sg)))"

text \<open>The training cell: \<^verbatim>\<open>lr = 0.01; tolerance = 1e-3; epochs = 1\<close>, then the loop.\<close>

definition training_cell :: "globals \<Rightarrow> (error + globals) option" where
  "training_cell g = gd_loop (g\<lparr>var_lr := 1 / 100, var_tolerance := 1 / 1000, var_epochs := 1\<rparr>)"

subsection \<open>The specification's formulas\<close>

text \<open>
  What the specification says each component computes, written element by element for
  the shapes it speaks of: a weight vector \<open>ws\<close>, a scalar bias \<open>bv\<close>, a feature matrix
  with rows \<open>rows\<close> and a target vector \<open>ys\<close>. These are compared with the code below.
  The mean of no numbers is not a number.
\<close>

definition spec_mean :: "real list \<Rightarrow> fscalar" where
  "spec_mean xs = (if xs = [] then NaN else Finite (sum_list xs / real (length xs)))"

definition spec_predictions :: "real list \<Rightarrow> real \<Rightarrow> real list list \<Rightarrow> real list" where
  "spec_predictions ws bv rows = map (\<lambda>r. (\<Sum>k\<leftarrow>[0..<length ws]. ws ! k * r ! k) + bv) rows"

definition spec_error :: "real list \<Rightarrow> real list \<Rightarrow> real list" where
  "spec_error ys ps = map (\<lambda>i. ys ! i - ps ! i) [0..<length ys]"

definition spec_gradient :: "nat \<Rightarrow> real list list \<Rightarrow> real list \<Rightarrow> real list" where
  "spec_gradient d rows es =
     map (\<lambda>j. - (1 / real (length rows)) * (\<Sum>i\<leftarrow>[0..<length rows]. es ! i * rows ! i ! j)) [0..<d]"

definition spec_update :: "real list \<Rightarrow> real \<Rightarrow> real list \<Rightarrow> real list" where
  "spec_update ws lr gs = map (\<lambda>j. ws ! j - lr * gs ! j) [0..<length ws]"

text \<open>
  The shapes of the specification's data model: \<open>d\<close> weights, a scalar bias, \<open>n\<close> rows of
  \<open>d\<close> features and \<open>n\<close> targets.
\<close>

definition regression_shapes :: "globals \<Rightarrow> real list \<Rightarrow> real \<Rightarrow> real list list \<Rightarrow> real list \<Rightarrow> bool" where
  "regression_shapes g ws bv rows ys \<longleftrightarrow>
     var_w g = Vec ws \<and> var_b g = Scalar bv \<and> var_X g = Mat (length ws) rows \<and> var_y g = Vec ys \<and>
     list_all (\<lambda>r. length r = length ws) rows \<and> length ys = length rows"

subsection \<open>Predicates used in the proofs\<close>

definition zeros :: "ndarray \<Rightarrow> bool" where
  "zeros a \<longleftrightarrow> rectangular a \<and> list_all (\<lambda>v. v = 0) (elems a)"

definition shaped :: "nat \<Rightarrow> nat \<Rightarrow> 'a list list \<Rightarrow> bool" where
  "shaped r c rows \<longleftrightarrow> length rows = r \<and> list_all (\<lambda>x. length x = c) rows"

text \<open>An array of rank 0 is \<open>1 \<times> 1\<close> when seen as rows, one of rank 1 has one row.\<close>

definition rank_fits :: "nat \<Rightarrow> nat \<Rightarrow> nat \<Rightarrow> bool" where
  "rank_fits k r c \<longleftrightarrow> (if k = 0 then r = 1 \<and> c = 1 else if k = 1 then r = 1 else True)"

text \<open>
  A bound on the inputs under which no float64 operation of a pass overflows: at most
  \<open>2\<^sup>2\<^sup>0\<close> rows and columns and entries of magnitude at most \<open>2\<^sup>1\<^sup>0\<^sup>0\<close> keep every
  product and sum of \<^verbatim>\<open>net\<close>, \<^verbatim>\<open>get_gradient\<close> and \<^verbatim>\<open>square_loss\<close> below \<open>2\<^sup>5\<^sup>0\<^sup>0\<close>,
  far from the largest float64. The model computes in exact reals and does not need the
  bound; the notebook does, since a product that overflows to \<^verbatim>\<open>inf\<close> makes
  \<^verbatim>\<open>0 * inf = nan\<close>.
\<close>

definition small_inputs :: "globals \<Rightarrow> bool" where
  "small_inputs g \<longleftrightarrow>
     list_all (\<lambda>a. list_all (\<lambda>v. \<bar>v\<bar> \<le> 2 ^ 100) (elems a)) [var_X g, var_y g, var_w g, var_b g] \<and>
     nrows (var_X g) \<le> 2 ^ 20 \<and> ncols (var_X g) \<le> 2 ^ 20"

subsection \<open>Example inputs\<close>

text \<open>
  Two samples with features \<open>[[1, 0], [0, 1]]\<close> and targets \<open>[2, -3.4]\<close>; weights start at
  zero, the learning rate and tolerance are the notebook's.
\<close>

definition example_globals :: globals where
  "example_globals =
     \<lparr>var_X = Mat 2 [[1, 0], [0, 1]], var_y = Vec [2, - (34 / 10)], var_w = Vec [0, 0],
      var_b = Scalar 0, var_lr = 1 / 100, var_tolerance = 1 / 1000, var_epochs = 1, printed = []\<rparr>"

text \<open>The same data with the weights that fit it exactly: \<open>[2, -3.4]\<close> and bias \<open>0\<close>.\<close>

definition fitted_example :: globals where
  "fitted_example = example_globals\<lparr>var_w := Vec [2, - (34 / 10)]\<rparr>"

text \<open>
  Noise-free targets \<^verbatim>\<open>real_fn(X)\<close> \<open>= [6.2, 0.8]\<close> for the same features, and the
  parameters of \<^verbatim>\<open>real_fn\<close>: weights \<open>[2, -3.4]\<close>, bias \<open>4.2\<close>.
\<close>

definition generating_example :: globals where
  "generating_example =
     example_globals\<lparr>var_y := Vec [62 / 10, 8 / 10], var_w := Vec [2, - (34 / 10)], var_b := Scalar (42 / 10)\<rparr>"

text \<open>A data set with no samples, learning rate \<open>0\<close> and the notebook's tolerance.\<close>

definition empty_data_example :: globals where
  "empty_data_example = example_globals\<lparr>var_X := Mat 2 [], var_y := Vec [], var_lr := 0\<rparr>"

text \<open>
  A generator run with two samples and a random source that returns the draws
  \<open>[[1, 0], [2, -1]]\<close> and the noise \<open>[0, 0.1]\<close>.
\<close>

definition example_config :: config where
  "example_config =
     \<lparr>num_examples = 2, input_mean = [0, 0], input_variance = [[1, 0], [0, 1]],
      noise_mean = 0, noise_variance = 1 / 100\<rparr>"

definition example_rng :: rng where
  "example_rng =
     \<lparr>multivariate_normal = (\<lambda>mean cov n. Mat (length mean) (map (\<lambda>i. [real i + 1, - real i]) [0..<n])),
      normal = (\<lambda>loc scale n. Vec (map (\<lambda>i. real i / 10) [0..<n]))\<rparr>"

section \<open>Properties of the array operations and of the code\<close>

subsection \<open>Error propagation\<close>

lemma ebind_Inr [simp]: "ebind (Inr x) f = f x"
  by (simp add: ebind_def)

lemma ebind_Inl [simp]: "ebind (Inl e) f = Inl e"
  by (simp add: ebind_def)

lemma ebind_eq_Inr: "ebind m f = Inr y \<longleftrightarrow> (\<exists>x. m = Inr x \<and> f x = Inr y)"
  by (cases m) simp_all

subsection \<open>Broadcasting vectors\<close>

lemma length_stretch [simp]: "length (stretch n xs) = n"
  by (simp add: stretch_def)

lemma stretch_same [simp]: "length xs = n \<Longrightarrow> stretch n xs = xs"
  by (simp add: stretch_def)

lemma stretch_single [simp]: "stretch n [x] = replicate n x"
  by (cases "n = 1") (simp_all add: stretch_def)

lemma map2_replicate_right: "map2 f xs (replicate (length xs) y) = map (\<lambda>x. f x y) xs"
  by (induction xs) simp_all

lemma map2_replicate_left: "map2 f (replicate (length ys) x) ys = map (f x) ys"
  by (induction ys) simp_all

lemma broadcast_Vec_Vec_same:
  "length xs = length ys \<Longrightarrow> broadcast f (Vec xs) (Vec ys) = Inr (Vec (map2 f xs ys))"
  by (simp add: broadcast_def bdim_def of_rows_def stretch2_def)

lemma broadcast_Vec_Scalar:
  "broadcast f (Vec xs) (Scalar y) = Inr (Vec (map (\<lambda>x. f x y) xs))"
  by (auto simp: broadcast_def bdim_def of_rows_def stretch2_def map2_replicate_right length_Suc_conv)

lemma broadcast_Vec_single_left:
  "broadcast f (Vec [x]) (Vec ys) = Inr (Vec (map (f x) ys))"
  by (simp add: broadcast_def bdim_def of_rows_def stretch2_def map2_replicate_left)

lemma broadcast_Vec_single_right:
  "broadcast f (Vec xs) (Vec [y]) = Inr (Vec (map (\<lambda>x. f x y) xs))"
  by (auto simp: broadcast_def bdim_def of_rows_def stretch2_def map2_replicate_right length_Suc_conv)

lemma broadcast_Vec_Vec_mismatch:
  "length xs \<noteq> length ys \<Longrightarrow> length xs \<noteq> 1 \<Longrightarrow> length ys \<noteq> 1 \<Longrightarrow>
   broadcast f (Vec xs) (Vec ys) = Inl DimensionMismatch"
  by (simp add: broadcast_def bdim_def)

subsection \<open>Inner products, columns, reductions\<close>

lemma dotp_sum: "length xs = length ys \<Longrightarrow> dotp xs ys = (\<Sum>i<length xs. xs ! i * ys ! i)"
proof -
  assume len: "length xs = length ys"
  have "dotp xs ys = (\<Sum>i = 0..<length (map2 (*) xs ys). map2 (*) xs ys ! i)"
    unfolding dotp_def by (rule sum_list_sum_nth)
  also have "\<dots> = (\<Sum>i = 0..<length xs. xs ! i * ys ! i)"
    using len by (intro sum.cong) simp_all
  finally show ?thesis by (simp add: lessThan_atLeast0)
qed

lemma dotp_sum_list: "length xs = length ys \<Longrightarrow> dotp xs ys = (\<Sum>i\<leftarrow>[0..<length xs]. xs ! i * ys ! i)"
  by (simp add: dotp_sum sum_list_sum_nth interv_sum_list_conv_sum_set_nat lessThan_atLeast0)

lemma cols_cols: "rectangular (Mat c rows) \<Longrightarrow> cols (length rows) (cols c rows) = rows"
  by (auto simp: cols_def list_all_iff intro!: nth_equalityI)

lemma map2_nth: "length xs = length ys \<Longrightarrow> map2 f xs ys = map (\<lambda>i. f (xs ! i) (ys ! i)) [0..<length xs]"
  by (auto intro!: nth_equalityI)

lemma zip_map_same: "zip (map f xs) (map h xs) = map (\<lambda>x. (f x, h x)) xs"
  by (induction xs) simp_all

lemma sum_list_zeros: "(\<Sum>i\<leftarrow>xs. (0::real)) = 0"
  by (induction xs) simp_all

lemma np_mean_Vec: "np_mean (Vec xs) = spec_mean xs"
  by (simp add: np_mean_def spec_mean_def elems_def)

lemma np_sum_Vec: "np_sum (Vec xs) = sum_list xs"
  by (simp add: np_sum_def elems_def)

lemma np_max_Mat:
  assumes "concat rows \<noteq> []"
  shows "np_max (Mat c rows) = Inr (Max (set (concat rows)))"
proof -
  obtain x xs where c: "concat rows = x # xs"
    using assms by (cases "concat rows") auto
  have "fold max xs x = Max (set (x # xs))"
    by (simp only: Max.set_eq_fold)
  with c show ?thesis
    by (simp add: np_max_def elems_def)
qed

lemma dot_Vec_Mat_spec:
  assumes "length es = length rows"
  shows "dot (Vec es) (Mat d rows) =
         Inr (Vec (map (\<lambda>j. \<Sum>i\<leftarrow>[0..<length rows]. es ! i * rows ! i ! j) [0..<d]))"
proof -
  have "dotp es (map (\<lambda>r. r ! j) rows) = (\<Sum>i\<leftarrow>[0..<length rows]. es ! i * rows ! i ! j)" for j
  proof -
    have "dotp es (map (\<lambda>r. r ! j) rows) =
          (\<Sum>i\<leftarrow>[0..<length rows]. es ! i * map (\<lambda>r. r ! j) rows ! i)"
      using assms by (simp add: dotp_sum_list)
    also have "\<dots> = (\<Sum>i\<leftarrow>[0..<length rows]. es ! i * rows ! i ! j)"
      by (rule arg_cong [where f = sum_list]) simp
    finally show ?thesis .
  qed
  then show ?thesis
    using assms by (simp add: cols_def comp_def)
qed

lemma dotp_zero_left: "\<forall>v\<in>set xs. v = 0 \<Longrightarrow> dotp xs ys = 0"
proof (induction xs arbitrary: ys)
  case Nil
  then show ?case by (simp add: dotp_def)
next
  case (Cons x xs)
  then have "dotp xs (tl ys) = 0" by simp
  with Cons.prems show ?case
    by (cases ys) (simp_all add: dotp_def)
qed

subsection \<open>The code on a weight vector, a scalar bias and a feature matrix\<close>

lemma net_vector:
  assumes "var_w g = Vec ws" "var_b g = Scalar bv" "list_all (\<lambda>r. length r = length ws) rows"
  shows "net g (Mat (length ws) rows) = Inr (Vec (spec_predictions ws bv rows))"
proof -
  have "dot (Vec ws) (transpose_nd (Mat (length ws) rows)) = Inr (Vec (map (dotp ws) rows))"
    using assms(3) by (simp add: cols_cols) (simp add: cols_def)
  moreover have "map (\<lambda>x. x + bv) (map (dotp ws) rows) = spec_predictions ws bv rows"
    using assms(3) by (auto simp: spec_predictions_def list_all_iff dotp_sum_list)
  ultimately show ?thesis
    using assms(1,2) by (simp add: net_def broadcast_Vec_Scalar)
qed

lemma square_loss_same_length:
  "length ps = length ts \<Longrightarrow>
   square_loss (Vec ps) (Vec ts) = Inr (spec_mean (map2 (\<lambda>p t. (p - t) ^ 2) ps ts))"
  by (simp add: square_loss_def broadcast_Vec_Vec_same np_mean_Vec map2_nth comp_def)

lemma get_gradient_vector:
  assumes "regression_shapes g ws bv rows ys" "rows \<noteq> []"
  shows "get_gradient g w (var_X g) (var_y g) =
         Inr (Vec (spec_gradient (length ws) rows (spec_error ys (spec_predictions ws bv rows))),
              spec_mean (map (\<lambda>e. e ^ 2) (spec_error ys (spec_predictions ws bv rows))))"
proof -
  let ?ps = "spec_predictions ws bv rows"
  from assms(1) have s: "var_w g = Vec ws" "var_b g = Scalar bv" "var_X g = Mat (length ws) rows"
    "var_y g = Vec ys" "list_all (\<lambda>r. length r = length ws) rows" "length ys = length rows"
    by (simp_all add: regression_shapes_def)
  have n: "net g (var_X g) = Inr (Vec ?ps)"
    using s by (simp add: net_vector)
  have lp: "length ?ps = length ys"
    using s by (simp add: spec_predictions_def)
  have e: "broadcast (-) (Vec ys) (Vec ?ps) = Inr (Vec (spec_error ys ?ps))"
    using lp by (simp add: broadcast_Vec_Vec_same map2_nth spec_error_def)
  have le: "length (spec_error ys ?ps) = length rows"
    using s by (simp add: spec_error_def)
  have l: "square_loss (Vec ys) (Vec ?ps) = Inr (spec_mean (map (\<lambda>e. e ^ 2) (spec_error ys ?ps)))"
    using lp by (simp add: square_loss_same_length map2_nth spec_error_def o_def)
  have d: "dot (Vec (spec_error ys ?ps)) (Mat (length ws) rows) =
           Inr (Vec (map (\<lambda>j. \<Sum>i\<leftarrow>[0..<length rows]. spec_error ys ?ps ! i * rows ! i ! j)
                      [0..<length ws]))"
    using le by (rule dot_Vec_Mat_spec)
  show ?thesis
    using assms(2) n e l d s(3,4)
    by (simp add: get_gradient_def spec_gradient_def comp_def del: dot.simps)
qed

lemma candidate_vector:
  assumes "regression_shapes g ws bv rows ys" "rows \<noteq> []"
  shows "candidate g =
         Inr (Vec (spec_update ws (var_lr g)
                    (spec_gradient (length ws) rows (spec_error ys (spec_predictions ws bv rows)))),
              spec_mean (map (\<lambda>e. e ^ 2) (spec_error ys (spec_predictions ws bv rows))))"
proof -
  let ?gs = "spec_gradient (length ws) rows (spec_error ys (spec_predictions ws bv rows))"
  have w: "var_w g = Vec ws"
    using assms(1) by (simp add: regression_shapes_def)
  have lg: "length ?gs = length ws"
    by (simp add: spec_gradient_def)
  have "broadcast (-) (Vec ws) (Vec (map (\<lambda>v. var_lr g * v) ?gs)) = Inr (Vec (spec_update ws (var_lr g) ?gs))"
    using lg by (simp add: broadcast_Vec_Vec_same map2_nth spec_update_def)
  then show ?thesis
    using w by (simp add: candidate_def get_gradient_vector [OF assms])
qed

lemma weight_change_vector:
  "length nw = length ws \<Longrightarrow>
   weight_change (Vec nw) (Vec ws) = Inr (\<Sum>j\<leftarrow>[0..<length ws]. \<bar>nw ! j - ws ! j\<bar>)"
  by (simp add: weight_change_def broadcast_Vec_Vec_same np_sum_Vec map2_nth comp_def)

lemma real_fn_spec:
  "real_fn (Mat 2 rows) = Inr (Vec (spec_predictions [2, - (34 / 10)] (42 / 10) rows))"
  by (simp add: real_fn_def broadcast_Vec_Vec_same spec_predictions_def zip_map_same comp_def)

subsection \<open>One pass through the loop body\<close>

lemma gd_loop_converged:
  "gd_step g = Inr (CONVERGED, g') \<Longrightarrow> gd_loop g = Some (Inr g')"
  by (subst gd_loop.simps) simp

lemma gd_loop_running:
  "gd_step g = Inr (RUNNING, g') \<Longrightarrow> gd_loop g = gd_loop g'"
  by (subst gd_loop.simps) simp

lemma gd_loop_raises:
  "gd_step g = Inl e \<Longrightarrow> gd_loop g = Some (Inl e)"
  by (subst gd_loop.simps) simp

lemma gd_step_cases:
  assumes "gd_step g = Inr (st, g')"
  obtains new_w loss delta where
    "candidate g = Inr (new_w, loss)" "weight_change new_w (var_w g) = Inr delta"
    "delta < var_tolerance g" "st = CONVERGED" "g' = g\<lparr>printed := printed g @ [PrintConverged]\<rparr>"
  | new_w loss delta where
    "candidate g = Inr (new_w, loss)" "weight_change new_w (var_w g) = Inr delta"
    "\<not> delta < var_tolerance g" "st = RUNNING"
    "g' = g\<lparr>var_w := new_w, var_epochs := var_epochs g + 1,
            printed := (if var_epochs g mod 3 = 0
                        then printed g @ [PrintIteration (var_epochs g) loss] else printed g)\<rparr>"
  using assms unfolding gd_step_def ebind_def
  by (auto split: sum.splits prod.splits if_splits)

lemma gd_step_zero_change:
  assumes "candidate g = Inr (new_w, loss)" "weight_change new_w (var_w g) = Inr 0" "0 < var_tolerance g"
  shows "gd_step g = Inr (CONVERGED, g\<lparr>printed := printed g @ [PrintConverged]\<rparr>)"
  using assms by (simp add: gd_step_def)

lemma gd_step_keeps_bias:
  "gd_step g = Inr (st, g') \<Longrightarrow> var_b g' = var_b g \<and> var_X g' = var_X g \<and> var_y g' = var_y g"
  by (erule gd_step_cases) simp_all

lemma gd_loop_frame:
  "gd_loop g = Some r \<Longrightarrow> (case r of Inl e \<Rightarrow> True | Inr g' \<Rightarrow> var_b g' = var_b g)"
proof (induction rule: gd_loop.raw_induct [rotated 1, consumes 1, case_names body])
  case (body loop g r)
  show ?case
  proof (cases "gd_step g")
    case (Inl e)
    with body(2) show ?thesis by auto
  next
    case (Inr sg)
    obtain st g1 where sg: "sg = (st, g1)" by (cases sg)
    with Inr have b: "var_b g1 = var_b g"
      by (simp add: gd_step_keeps_bias)
    show ?thesis
    proof (cases st)
      case RUNNING
      with body(2) Inr sg have "loop g1 = Some r" by simp
      then have "case r of Inl e \<Rightarrow> True | Inr g' \<Rightarrow> var_b g' = var_b g1" by (rule body(1))
      with b show ?thesis by (cases r) simp_all
    next
      case CONVERGED
      with body(2) Inr sg have "r = Inr g1" by simp
      with b show ?thesis by simp
    qed
  qed
qed

lemma gd_loop_keeps_bias: "gd_loop g = Some (Inr g') \<Longrightarrow> var_b g' = var_b g"
  by (drule gd_loop_frame) simp

subsection \<open>Broadcasting in general: shapes\<close>

lemma bdim_SomeD: "bdim m n = Some r \<Longrightarrow> (m = r \<or> m = 1) \<and> (n = r \<or> n = 1)"
  by (auto simp: bdim_def split: if_splits)

lemma bdim_absorb: "bdim m n = Some r \<Longrightarrow> bdim r m = Some r"
  by (auto simp: bdim_def split: if_splits)

lemma bdim_same [simp]: "bdim n n = Some n"
  by (simp add: bdim_def)

lemma shaped_stretch2:
  assumes "length rows = r \<or> length rows = 1"
  shows "shaped r c (stretch2 r c rows)"
proof (cases "length rows = r")
  case True
  then show ?thesis
    by (auto simp: shaped_def list_all_iff stretch2_def)
next
  case False
  with assms obtain x where "rows = [x]"
    by (auto simp: length_Suc_conv)
  then show ?thesis
    by (auto simp: shaped_def list_all_iff stretch2_def)
qed

lemma stretch2_shaped: "shaped r c rows \<Longrightarrow> stretch2 r c rows = rows"
  by (auto simp: shaped_def list_all_iff stretch2_def intro: map_idI)

lemma length_as_rows [simp]: "length (as_rows a) = nrows a"
  by (cases a) simp_all

lemma rectangular_as_rows: "rectangular a \<Longrightarrow> shaped (nrows a) (ncols a) (as_rows a)"
  by (cases a) (auto simp: shaped_def list_all_iff list_all_iff)

lemma as_rows_of_rows:
  assumes "shaped r c rows" "rank_fits k r c"
  shows "as_rows (of_rows k c rows) = rows \<and> nrows (of_rows k c rows) = r \<and> ncols (of_rows k c rows) = c"
proof -
  consider "k = 0" | "k = 1" | "k \<noteq> 0" "k \<noteq> 1" by blast
  then show ?thesis
  proof cases
    case 1
    with assms obtain v where "rows = [[v]]"
      by (auto simp: shaped_def list_all_iff rank_fits_def length_Suc_conv)
    with 1 assms show ?thesis
      by (simp add: of_rows_def shaped_def list_all_iff rank_fits_def)
  next
    case 2
    with assms obtain x where "rows = [x]"
      by (auto simp: shaped_def list_all_iff rank_fits_def length_Suc_conv)
    with 2 assms show ?thesis
      by (simp add: of_rows_def shaped_def list_all_iff rank_fits_def)
  next
    case 3
    with assms show ?thesis
      by (simp add: of_rows_def shaped_def list_all_iff)
  qed
qed

lemma rank_of_rows: "k \<le> 2 \<Longrightarrow> rank (of_rows k c rows) = k"
  by (auto simp: of_rows_def)

lemma rank_le_2 [simp]: "rank a \<le> 2"
  by (cases a) simp_all

lemma rank_fits_broadcast:
  assumes "bdim (nrows a) (nrows b) = Some r" "bdim (ncols a) (ncols b) = Some c"
  shows "rank_fits (max (rank a) (rank b)) r c"
  using assms by (cases a; cases b) (auto simp: rank_fits_def bdim_def split: if_splits)

lemma rectangular_map_nd [simp]: "rectangular (map_nd f a) = rectangular a"
  by (cases a) (simp_all add: list_all_iff)

lemma elems_map_nd: "elems (map_nd f a) = map f (elems a)"
  by (cases a) (simp_all add: elems_def map_concat)

subsection \<open>Arrays of zeros\<close>

lemma zero_list: "(\<forall>v\<in>set xs. v = (0::real)) \<Longrightarrow> xs = replicate (length xs) 0"
  by (induction xs) simp_all

lemma stretch_zero_row:
  assumes "\<forall>v\<in>set x. v = (0::real)" "length x = c \<or> length x = 1"
  shows "stretch c x = replicate c 0"
proof (cases "length x = c")
  case True
  with zero_list [OF assms(1)] show ?thesis by simp
next
  case False
  with assms(2) obtain v where "x = [v]"
    by (auto simp: length_Suc_conv)
  with assms(1) show ?thesis by simp
qed

lemma stretch2_zero:
  assumes "shaped m n rows" "\<forall>x\<in>set rows. \<forall>v\<in>set x. v = (0::real)"
    and "m = r \<or> m = 1" "n = c \<or> n = 1"
  shows "stretch2 r c rows = replicate r (replicate c 0)"
proof -
  have "map (stretch c) rows = map (\<lambda>x. replicate c 0) rows"
    using assms(1,2,4) by (intro map_cong refl stretch_zero_row) (auto simp: shaped_def list_all_iff)
  then have rows': "map (stretch c) rows = replicate m (replicate c 0)"
    using assms(1) by (simp add: shaped_def list_all_iff map_replicate_const)
  show ?thesis
  proof (cases "m = r")
    case True
    with rows' show ?thesis by (simp add: stretch2_def)
  next
    case False
    with assms(3) have "m = 1" by simp
    with rows' show ?thesis by (simp add: stretch2_def)
  qed
qed

lemma map2_minus_zero:
  "length xs = c \<Longrightarrow> map2 (-) xs (replicate c (0::real)) = xs"
  by (induction xs arbitrary: c) auto

lemma map2_map2_minus_zero:
  "shaped r c rows \<Longrightarrow> map2 (map2 (-)) rows (replicate r (replicate c (0::real))) = rows"
proof (induction rows arbitrary: r)
  case Nil
  then show ?case by simp
next
  case (Cons x rows)
  then obtain r' where r: "r = Suc r'" "shaped r' c rows" "length x = c"
    by (auto simp: shaped_def list_all_iff)
  with Cons.IH [of r'] show ?case
    by (simp add: map2_minus_zero)
qed

lemma map2_minus_self: "map2 (-) xs xs = replicate (length xs) (0::real)"
  by (induction xs) simp_all

lemma map2_map2_minus_self:
  "shaped r c rows \<Longrightarrow> map2 (map2 (-)) rows rows = replicate r (replicate c (0::real))"
proof (induction rows arbitrary: r)
  case Nil
  then show ?case by (simp add: shaped_def list_all_iff)
next
  case (Cons x rows)
  then obtain r' where r: "r = Suc r'" "shaped r' c rows" "length x = c"
    by (auto simp: shaped_def list_all_iff)
  with Cons.IH [of r'] show ?case
    by (simp add: map2_minus_self)
qed

lemma zeros_of_rows:
  assumes "rank_fits k r c"
  shows "zeros (of_rows k c (replicate r (replicate c 0)))"
  using assms by (auto simp: zeros_def of_rows_def rank_fits_def elems_def list_all_iff)

lemma zeros_shaped:
  "zeros z \<Longrightarrow> shaped (nrows z) (ncols z) (as_rows z) \<and> (\<forall>x\<in>set (as_rows z). \<forall>v\<in>set x. v = 0)"
  by (auto simp: zeros_def rectangular_as_rows elems_def list_all_iff)

lemma zeros_map_nd: "zeros a \<Longrightarrow> f 0 = 0 \<Longrightarrow> zeros (map_nd f a)"
  by (auto simp: zeros_def elems_map_nd list_all_iff)

lemma zeros_map_nd_times_zero: "rectangular a \<Longrightarrow> zeros (map_nd (\<lambda>v. 0 * v) a)"
  by (auto simp: zeros_def elems_map_nd list_all_iff)

lemma np_sum_abs_zeros: "zeros a \<Longrightarrow> np_sum (map_nd abs a) = 0"
proof -
  assume z: "zeros a"
  have "elems (map_nd abs a) = map abs (elems a)"
    by (cases a) (simp_all add: elems_def map_concat)
  also have "\<dots> = map (\<lambda>v. 0) (elems a)"
    using z by (intro map_cong refl) (auto simp: zeros_def list_all_iff)
  finally show ?thesis
    by (simp add: np_sum_def sum_list_zeros)
qed

lemma broadcast_minus_self:
  assumes "broadcast (-) a a = Inr e"
  shows "zeros e"
proof -
  let ?A = "stretch2 (nrows a) (ncols a) (as_rows a)"
  have A: "shaped (nrows a) (ncols a) ?A"
    by (rule shaped_stretch2) simp
  have "e = of_rows (rank a) (ncols a) (map2 (map2 (-)) ?A ?A)"
    using assms by (simp add: broadcast_def)
  then have e: "e = of_rows (rank a) (ncols a) (replicate (nrows a) (replicate (ncols a) 0))"
    using A by (simp add: map2_map2_minus_self)
  have "rank_fits (rank a) (nrows a) (ncols a)"
    by (cases a) (simp_all add: rank_fits_def)
  then show ?thesis
    unfolding e by (rule zeros_of_rows)
qed

lemma weight_change_zero_update:
  assumes "broadcast (-) a z = Inr c" "zeros z"
  shows "weight_change c a = Inr 0"
proof -
  from assms(1) obtain r n where
    r: "bdim (nrows a) (nrows z) = Some r" and n: "bdim (ncols a) (ncols z) = Some n"
    by (auto simp: broadcast_def split: option.splits)
  let ?k = "max (rank a) (rank z)"
  let ?A = "stretch2 r n (as_rows a)"
  have fits: "rank_fits ?k r n"
    using r n by (rule rank_fits_broadcast)
  have A: "shaped r n ?A"
    using bdim_SomeD [OF r] by (intro shaped_stretch2) auto
  have "stretch2 r n (as_rows z) = replicate r (replicate n 0)"
    using zeros_shaped [OF assms(2)] bdim_SomeD [OF r] bdim_SomeD [OF n]
    by (intro stretch2_zero [where m = "nrows z" and n = "ncols z"]) auto
  with assms(1) r n A have c: "c = of_rows ?k n ?A"
    by (simp add: broadcast_def map2_map2_minus_zero)
  have c_rows: "as_rows c = ?A" and c_nrows: "nrows c = r" and c_ncols: "ncols c = n"
    using as_rows_of_rows [OF A fits] c by simp_all
  have c_rank: "rank c = ?k"
    unfolding c by (rule rank_of_rows) simp
  have "broadcast (-) c a = Inr (of_rows ?k n (map2 (map2 (-)) ?A ?A))"
    using bdim_absorb [OF r] bdim_absorb [OF n] A
    by (simp add: broadcast_def c_rows c_nrows c_ncols c_rank stretch2_shaped)
  then have "broadcast (-) c a = Inr (of_rows ?k n (replicate r (replicate n 0)))"
    using A by (simp add: map2_map2_minus_self)
  moreover have "np_sum (map_nd abs (of_rows ?k n (replicate r (replicate n 0)))) = 0"
    using fits by (intro np_sum_abs_zeros zeros_of_rows)
  ultimately show ?thesis
    by (simp add: weight_change_def)
qed

lemma dot_zeros:
  assumes "dot e x = Inr d" "zeros e" "rectangular x"
  shows "zeros d"
proof (cases e)
  case (Scalar v)
  with assms(2) have "v = 0" by (simp add: zeros_def elems_def)
  with Scalar assms(1,3) show ?thesis
    by (auto simp: zeros_map_nd_times_zero)
next
  case (Vec xs)
  with assms(2) have z: "\<forall>v\<in>set xs. v = 0" by (simp add: zeros_def elems_def list_all_iff)
  show ?thesis
  proof (cases x)
    case (Scalar y)
    from assms(2) have "zeros (map_nd (\<lambda>v. v * y) e)"
      by (rule zeros_map_nd) simp
    with Scalar Vec assms(1) show ?thesis by auto
  next
    case (Vec ys)
    with \<open>e = Vec xs\<close> assms(1) z show ?thesis
      by (auto simp: zeros_def elems_def dotp_zero_left split: if_splits)
  next
    case (Mat c rows)
    with \<open>e = Vec xs\<close> assms(1) z show ?thesis
      by (auto simp: zeros_def elems_def dotp_zero_left list_all_iff split: if_splits)
  qed
next
  case (Mat c rows)
  with assms(2) have z: "\<forall>r\<in>set rows. \<forall>v\<in>set r. v = 0"
    by (auto simp: zeros_def elems_def list_all_iff)
  show ?thesis
  proof (cases x)
    case (Scalar y)
    from assms(2) have "zeros (map_nd (\<lambda>v. v * y) e)"
      by (rule zeros_map_nd) simp
    with Scalar Mat assms(1) show ?thesis by auto
  next
    case (Vec ys)
    with \<open>e = Mat c rows\<close> assms(1) z show ?thesis
      by (auto simp: zeros_def elems_def dotp_zero_left list_all_iff split: if_splits)
  next
    case (Mat c' rows')
    with \<open>e = Mat c rows\<close> assms(1) z show ?thesis
      by (auto simp: zeros_def elems_def dotp_zero_left list_all_iff cols_def split: if_splits)
  qed
qed

subsection \<open>The gradient\<close>

lemma get_gradient_Inr:
  assumes "get_gradient g w x y = Inr (gradient, loss)"
  shows "\<exists>y_estimate err n d.
           net g x = Inr y_estimate \<and> broadcast (-) y y_estimate = Inr err \<and> len x = Inr n \<and> n \<noteq> 0 \<and>
           dot err x = Inr d \<and> gradient = map_nd (\<lambda>v. - (1 / real n) * v) d \<and>
           square_loss y y_estimate = Inr loss"
  using assms unfolding get_gradient_def
  by (auto simp only: ebind_eq_Inr Let_def sum.inject sum.distinct prod.inject split: if_splits)

lemma get_gradient_cases:
  assumes "get_gradient g w x y = Inr (gradient, loss)"
  obtains y_estimate err n d where
    "net g x = Inr y_estimate" "broadcast (-) y y_estimate = Inr err" "len x = Inr n" "n \<noteq> 0"
    "dot err x = Inr d" "gradient = map_nd (\<lambda>v. - (1 / real n) * v) d"
    "square_loss y y_estimate = Inr loss"
  using get_gradient_Inr [OF assms] by blast

lemma candidate_cases:
  assumes "candidate g = Inr (new_w, loss)"
  obtains gradient where
    "get_gradient g (var_w g) (var_X g) (var_y g) = Inr (gradient, loss)"
    "broadcast (-) (var_w g) (map_nd (\<lambda>v. var_lr g * v) gradient) = Inr new_w"
  using assms unfolding candidate_def
  by (auto simp: ebind_eq_Inr)

lemma get_gradient_exact:
  assumes "get_gradient g w x y = Inr (gradient, loss)" "net g x = Inr y" "rectangular x"
  shows "zeros gradient"
  using assms(1)
proof (cases rule: get_gradient_cases)
  case (1 y_estimate err n d)
  with assms(2) have "broadcast (-) y y = Inr err" by simp
  then have "zeros err" by (rule broadcast_minus_self)
  with 1(5) have "zeros d" using assms(3) by (rule dot_zeros)
  then show ?thesis
    unfolding 1(6) by (rule zeros_map_nd) simp
qed

subsection \<open>Starting from parameters that fit the data exactly\<close>

lemma exact_fit_step:
  assumes "net g (var_X g) = Inr (var_y g)" "rectangular (var_X g)" "0 < var_tolerance g"
    and "candidate g = Inr (new_w, loss)"
  shows "\<exists>gradient.
           get_gradient g (var_w g) (var_X g) (var_y g) = Inr (gradient, loss) \<and> zeros gradient \<and>
           gd_step g = Inr (CONVERGED, g\<lparr>printed := printed g @ [PrintConverged]\<rparr>)"
  using assms(4)
proof (cases rule: candidate_cases)
  case (1 gradient)
  from 1(1) assms(1,2) have z: "zeros gradient"
    by (rule get_gradient_exact)
  then have "zeros (map_nd (\<lambda>v. var_lr g * v) gradient)"
    by (rule zeros_map_nd) simp
  with 1(2) have "weight_change new_w (var_w g) = Inr 0"
    by (rule weight_change_zero_update)
  with assms(4) have "gd_step g = Inr (CONVERGED, g\<lparr>printed := printed g @ [PrintConverged]\<rparr>)"
    using assms(3) by (rule gd_step_zero_change)
  with 1(1) z show ?thesis
    by blast
qed

text \<open>The training cell sets the tolerance to \<open>0.001\<close>, which is positive.\<close>

lemma training_cell_exact_fit:
  assumes "net g (var_X g) = Inr (var_y g)" "rectangular (var_X g)"
    and "candidate (g\<lparr>var_lr := 1 / 100, var_tolerance := 1 / 1000, var_epochs := 1\<rparr>) = Inr (new_w, loss)"
  shows "training_cell g =
         Some (Inr (g\<lparr>var_lr := 1 / 100, var_tolerance := 1 / 1000, var_epochs := 1,
                      printed := printed g @ [PrintConverged]\<rparr>))"
proof -
  let ?g = "g\<lparr>var_lr := 1 / 100, var_tolerance := 1 / 1000, var_epochs := 1\<rparr>"
  have "net ?g (var_X ?g) = Inr (var_y ?g)"
    using assms(1) by (simp add: net_def)
  moreover have "rectangular (var_X ?g)" "0 < var_tolerance ?g"
    using assms(2) by simp_all
  ultimately have "gd_step ?g = Inr (CONVERGED, ?g\<lparr>printed := printed ?g @ [PrintConverged]\<rparr>)"
    using exact_fit_step [OF _ _ _ assms(3)] by blast
  then show ?thesis
    by (simp add: training_cell_def gd_loop_converged)
qed

lemma gd_step_vector:
  assumes "regression_shapes g ws bv rows ys" "rows \<noteq> []"
  shows "\<exists>st g'. gd_step g = Inr (st, g') \<and>
           (st = RUNNING \<longrightarrow>
              var_w g' = Vec (spec_update ws (var_lr g)
                (spec_gradient (length ws) rows (spec_error ys (spec_predictions ws bv rows)))))"
proof -
  let ?nw = "spec_update ws (var_lr g)
    (spec_gradient (length ws) rows (spec_error ys (spec_predictions ws bv rows)))"
  have w: "var_w g = Vec ws"
    using assms(1) by (simp add: regression_shapes_def)
  have "length ?nw = length ws"
    by (simp add: spec_update_def)
  then have "weight_change (Vec ?nw) (Vec ws) = Inr (\<Sum>j\<leftarrow>[0..<length ws]. \<bar>?nw ! j - ws ! j\<bar>)"
    by (rule weight_change_vector)
  then show ?thesis
    using w by (simp add: gd_step_def candidate_vector [OF assms])
qed

subsection \<open>Learning rate zero\<close>

lemma gd_passes_converged:
  "gd_passes k g = Inr (CONVERGED, g') \<Longrightarrow> gd_loop g = Some (Inr g')"
proof (induction k arbitrary: g)
  case 0
  then show ?case by simp
next
  case (Suc k)
  show ?case
  proof (cases "gd_step g")
    case (Inl e)
    with Suc.prems show ?thesis by simp
  next
    case (Inr sg)
    obtain st g1 where sg: "sg = (st, g1)" by (cases sg)
    show ?thesis
    proof (cases st)
      case RUNNING
      with Suc.prems Inr sg have "gd_passes k g1 = Inr (CONVERGED, g')" by simp
      then have "gd_loop g1 = Some (Inr g')" by (rule Suc.IH)
      with RUNNING Inr sg show ?thesis by (simp add: gd_loop_running)
    next
      case CONVERGED
      with Suc.prems Inr sg show ?thesis by (simp add: gd_loop_converged)
    qed
  qed
qed

lemma gd_passes_raises:
  "gd_passes k g = Inl e \<Longrightarrow> gd_loop g = Some (Inl e)"
proof (induction k arbitrary: g)
  case 0
  then show ?case by simp
next
  case (Suc k)
  show ?case
  proof (cases "gd_step g")
    case (Inl e')
    with Suc.prems show ?thesis by (simp add: gd_loop_raises)
  next
    case (Inr sg)
    obtain st g1 where sg: "sg = (st, g1)" by (cases sg)
    show ?thesis
    proof (cases st)
      case RUNNING
      with Suc.prems Inr sg have "gd_passes k g1 = Inl e" by simp
      then have "gd_loop g1 = Some (Inl e)" by (rule Suc.IH)
      with RUNNING Inr sg show ?thesis by (simp add: gd_loop_running)
    next
      case CONVERGED
      with Suc.prems Inr sg show ?thesis by simp
    qed
  qed
qed

lemma spec_update_lr_zero: "spec_update ws 0 gs = ws"
  by (simp add: spec_update_def map_nth)

lemma gd_step_lr_zero:
  assumes "regression_shapes g ws bv rows ys" "rows \<noteq> []" "var_lr g = 0"
  shows "\<exists>loss. candidate g = Inr (var_w g, loss) \<and>
           gd_step g =
             Inr (if 0 < var_tolerance g
                  then (CONVERGED, g\<lparr>printed := printed g @ [PrintConverged]\<rparr>)
                  else (RUNNING,
                        g\<lparr>var_w := var_w g, var_epochs := var_epochs g + 1,
                          printed := (if var_epochs g mod 3 = 0
                                      then printed g @ [PrintIteration (var_epochs g) loss]
                                      else printed g)\<rparr>))"
proof -
  have w: "var_w g = Vec ws"
    using assms(1) by (simp add: regression_shapes_def)
  have c: "candidate g =
           Inr (Vec ws, spec_mean (map (\<lambda>e. e ^ 2) (spec_error ys (spec_predictions ws bv rows))))"
    using candidate_vector [OF assms(1,2)] assms(3) by (simp add: spec_update_lr_zero)
  have "weight_change (Vec ws) (Vec ws) = Inr 0"
    by (simp add: weight_change_vector sum_list_zeros)
  with c w show ?thesis
    by (simp add: gd_step_def)
qed

lemma gd_passes_lr_zero:
  assumes "regression_shapes g ws bv rows ys" "rows \<noteq> []" "var_lr g = 0"
  shows "\<exists>st g'. gd_passes k g = Inr (st, g') \<and> var_w g' = var_w g"
  using assms
proof (induction k arbitrary: g)
  case 0
  then show ?case by simp
next
  case (Suc k)
  from gd_step_lr_zero [OF Suc.prems] obtain loss where
    s: "gd_step g =
          Inr (if 0 < var_tolerance g
               then (CONVERGED, g\<lparr>printed := printed g @ [PrintConverged]\<rparr>)
               else (RUNNING,
                     g\<lparr>var_w := var_w g, var_epochs := var_epochs g + 1,
                       printed := (if var_epochs g mod 3 = 0
                                   then printed g @ [PrintIteration (var_epochs g) loss]
                                   else printed g)\<rparr>))"
    by blast
  show ?case
  proof (cases "0 < var_tolerance g")
    case True
    with s show ?thesis by simp
  next
    case False
    let ?g1 = "g\<lparr>var_w := var_w g, var_epochs := var_epochs g + 1,
                 printed := (if var_epochs g mod 3 = 0
                             then printed g @ [PrintIteration (var_epochs g) loss]
                             else printed g)\<rparr>"
    have "regression_shapes ?g1 ws bv rows ys" "var_lr ?g1 = 0"
      using Suc.prems by (simp_all add: regression_shapes_def)
    from Suc.IH [OF this(1) Suc.prems(2) this(2)] obtain st g' where
      "gd_passes k ?g1 = Inr (st, g')" "var_w g' = var_w ?g1"
      by blast
    with s False show ?thesis by simp
  qed
qed

section \<open>The claims\<close>

text \<open>
  Claim C1. With a weight vector, a scalar bias, a feature matrix of \<open>n > 0\<close> rows and
  \<open>n\<close> targets, one pass of the loop body computes the predictions by \<open>net\<close>, the error
  \<open>targets - predictions\<close>, the gradient \<open>-(1/n) * (error \<cdot> features)\<close> and the candidate
  \<open>weights - lr * gradient\<close>, each equal to the specification's element-wise formula; the
  pass does not raise, and when it goes round again the new weights are that candidate.
\<close>

theorem gd_step_computation:
  assumes "regression_shapes g ws bv rows ys" "rows \<noteq> []"
  shows "\<exists>ps es gs loss st g'.
           ps = spec_predictions ws bv rows \<and> es = spec_error ys ps \<and>
           gs = spec_gradient (length ws) rows es \<and>
           net g (var_X g) = Inr (Vec ps) \<and>
           get_gradient g (var_w g) (var_X g) (var_y g) = Inr (Vec gs, loss) \<and>
           candidate g = Inr (Vec (spec_update ws (var_lr g) gs), loss) \<and>
           gd_step g = Inr (st, g') \<and>
           (st = RUNNING \<longrightarrow> var_w g' = Vec (spec_update ws (var_lr g) gs))"
proof -
  have "net g (var_X g) = Inr (Vec (spec_predictions ws bv rows))"
    using assms(1) by (simp add: regression_shapes_def net_vector)
  then show ?thesis
    using get_gradient_vector [OF assms] candidate_vector [OF assms] gd_step_vector [OF assms]
    by blast
qed

text \<open>
  On the example: predictions \<open>[0, 0]\<close>, error \<open>[2, -3.4]\<close>, gradient \<open>[-1, 1.7]\<close>,
  candidate \<open>[0.01, -0.017]\<close>.
\<close>

theorem gd_step_computation_witness:
  "regression_shapes example_globals [0, 0] 0 [[1, 0], [0, 1]] [2, - (34 / 10)] \<and>
   [[1, 0], [0, 1]] \<noteq> ([] :: real list list) \<and>
   net example_globals (var_X example_globals) = Inr (Vec [0, 0]) \<and>
   get_gradient example_globals (var_w example_globals) (var_X example_globals)
     (var_y example_globals) = Inr (Vec [- 1, 17 / 10], Finite (389 / 50)) \<and>
   candidate example_globals = Inr (Vec [1 / 100, - (17 / 1000)], Finite (389 / 50))"
proof -
  have h: "regression_shapes example_globals [0, 0] 0 [[1, 0], [0, 1]] [2, - (34 / 10)]"
    by code_simp
  have n: "[[1, 0], [0, 1]] \<noteq> ([] :: real list list)"
    by simp
  have p: "spec_predictions [0, 0] 0 [[1, 0], [0, 1]] = [0, 0]"
    by code_simp
  have e: "spec_error [2, - (34 / 10)] [0, 0] = [2, - (34 / 10)]"
    by code_simp
  have gr: "spec_gradient (length [0, 0 :: real]) [[1, 0], [0, 1]] [2, - (34 / 10)] = [- 1, 17 / 10]"
    by code_simp
  have u: "spec_update [0, 0] (var_lr example_globals) [- 1, 17 / 10] = [1 / 100, - (17 / 1000)]"
    by code_simp
  have l: "get_gradient example_globals (var_w example_globals) (var_X example_globals)
     (var_y example_globals) = Inr (Vec [- 1, 17 / 10], Finite (389 / 50))"
    by code_simp
  from gd_step_computation [OF h n] obtain loss where
    "net example_globals (var_X example_globals) =
       Inr (Vec (spec_predictions [0, 0] 0 [[1, 0], [0, 1]]))"
    "get_gradient example_globals (var_w example_globals) (var_X example_globals)
       (var_y example_globals) =
       Inr (Vec (spec_gradient (length [0, 0 :: real]) [[1, 0], [0, 1]]
              (spec_error [2, - (34 / 10)] (spec_predictions [0, 0] 0 [[1, 0], [0, 1]]))), loss)"
    "candidate example_globals =
       Inr (Vec (spec_update [0, 0] (var_lr example_globals)
              (spec_gradient (length [0, 0 :: real]) [[1, 0], [0, 1]]
                (spec_error [2, - (34 / 10)] (spec_predictions [0, 0] 0 [[1, 0], [0, 1]])))), loss)"
    by blast
  then have r:
    "net example_globals (var_X example_globals) = Inr (Vec [0, 0])"
    "get_gradient example_globals (var_w example_globals) (var_X example_globals)
       (var_y example_globals) = Inr (Vec [- 1, 17 / 10], loss)"
    "candidate example_globals = Inr (Vec [1 / 100, - (17 / 1000)], loss)"
    unfolding p e gr u by this+
  from r(2) l have "loss = Finite (389 / 50)"
    by simp
  with h n l r(1,3) show ?thesis
    by blast
qed



text \<open>
  Claim C3, as amended. Two one-dimensional arrays of different lengths make the loss
  fail with a dimension mismatch when neither has length 1. When one of them has
  length 1, numpy broadcasts its single entry against the other array and the loss is
  the mean of those squared differences.
\<close>

theorem square_loss_length_mismatch:
  assumes "length ps \<noteq> length ts"
  shows "square_loss (Vec ps) (Vec ts) =
         (if length ps = 1 then Inr (spec_mean (map (\<lambda>t. (hd ps - t) ^ 2) ts))
          else if length ts = 1 then Inr (spec_mean (map (\<lambda>p. (p - hd ts) ^ 2) ps))
          else Inl DimensionMismatch)"
proof -
  consider (left) p where "ps = [p]" | (right) t where "length ps \<noteq> 1" "ts = [t]"
    | (neither) "length ps \<noteq> 1" "length ts \<noteq> 1"
    by (cases "length ps = 1"; cases "length ts = 1") (auto simp: length_Suc_conv)
  then show ?thesis
  proof cases
    case left
    then show ?thesis
      by (simp add: square_loss_def broadcast_Vec_single_left np_mean_Vec comp_def)
  next
    case right
    then show ?thesis
      by (simp add: square_loss_def broadcast_Vec_single_right np_mean_Vec comp_def)
  next
    case neither
    with assms show ?thesis
      by (simp add: square_loss_def broadcast_Vec_Vec_mismatch)
  qed
qed

theorem square_loss_length_mismatch_witness:
  "length [1, 2 :: real] \<noteq> length [1, 2, 3 :: real] \<and>
   square_loss (Vec [1, 2]) (Vec [1, 2, 3]) = Inl DimensionMismatch"
proof -
  have h: "length [1, 2 :: real] \<noteq> length [1, 2, 3 :: real]"
    by simp
  from square_loss_length_mismatch [OF h] show ?thesis
    by simp
qed

text \<open>
  The claim as stated fails: predictions of length 1 and targets of length 3 give the
  loss \<open>((1-1)\<^sup>2 + (1-2)\<^sup>2 + (1-3)\<^sup>2) / 3\<close>.
\<close>

theorem square_loss_broadcast_counterexample:
  "length [1 :: real] \<noteq> length [1, 2, 3 :: real] \<and>
   square_loss (Vec [1]) (Vec [1, 2, 3]) = Inr (Finite (5 / 3))"
  by code_simp

text \<open>
  Claim C4. The loop is to update both parameters, the weights and the bias. On the
  example one pass moves the weights from \<open>[0, 0]\<close> to \<open>[0.01, -0.017]\<close> and leaves the
  bias at \<open>0\<close>: the body never assigns \<^verbatim>\<open>b\<close> (see also \<open>gd_loop_keeps_bias\<close>).
\<close>

theorem gd_step_leaves_bias:
  "gd_step example_globals =
     Inr (RUNNING, example_globals\<lparr>var_w := Vec [1 / 100, - (17 / 1000)], var_epochs := 2\<rparr>) \<and>
   var_w (example_globals\<lparr>var_w := Vec [1 / 100, - (17 / 1000)], var_epochs := 2\<rparr>) \<noteq> var_w example_globals \<and>
   var_b (example_globals\<lparr>var_w := Vec [1 / 100, - (17 / 1000)], var_epochs := 2\<rparr>) = var_b example_globals"
  by code_simp

text \<open>
  Claim C5, as amended. When the random source returns \<open>n > 0\<close> rows of two draws with
  a non-zero maximum and \<open>n\<close> noise values, the generator returns as features the draws
  divided by their largest entry, and as targets
  \<open>features \<cdot> [2, -3.4] + 4.2 + noise\<close> on those features; the noise is the vector the
  source returns for \<^verbatim>\<open>normal(noise_mean, noise_variance, num_examples)\<close>.
\<close>

theorem generate_data_result:
  assumes "multivariate_normal r (input_mean cfg) (input_variance cfg) (num_examples cfg) = Mat 2 rows"
    and "normal r (noise_mean cfg) (noise_variance cfg) (num_examples cfg) = Vec noise"
    and "list_all (\<lambda>r. length r = 2) rows" "rows \<noteq> []" "length noise = length rows"
    and "Max (set (concat rows)) \<noteq> 0"
  shows "generate_data cfg r =
         Inr (Mat 2 (map (map (\<lambda>v. v / Max (set (concat rows)))) rows),
              Vec (map2 (+) (spec_predictions [2, - (34 / 10)] (42 / 10)
                               (map (map (\<lambda>v. v / Max (set (concat rows)))) rows)) noise))"
proof -
  let ?m = "Max (set (concat rows))"
  let ?X = "map (map (\<lambda>v. v / ?m)) rows"
  obtain r0 rs where "rows = r0 # rs"
    using assms(4) by (cases rows) auto
  with assms(3) have "concat rows \<noteq> []" by auto
  then have m: "np_max (Mat 2 rows) = Inr ?m"
    by (rule np_max_Mat)
  have d: "div_scalar (Mat 2 rows) ?m = Inr (Mat 2 ?X)"
    using assms(6) by (simp add: div_scalar_def)
  have f: "real_fn (Mat 2 ?X) = Inr (Vec (spec_predictions [2, - (34 / 10)] (42 / 10) ?X))"
    by (rule real_fn_spec)
  have y: "broadcast (+) (Vec (spec_predictions [2, - (34 / 10)] (42 / 10) ?X)) (Vec noise) =
           Inr (Vec (map2 (+) (spec_predictions [2, - (34 / 10)] (42 / 10) ?X) noise))"
    using assms(5) by (simp add: broadcast_Vec_Vec_same spec_predictions_def)
  show ?thesis
    unfolding generate_data_def assms(1,2) Let_def
    by (simp only: m d f y ebind_Inr)
qed

theorem generate_data_result_witness:
  "multivariate_normal example_rng (input_mean example_config) (input_variance example_config)
     (num_examples example_config) = Mat 2 [[1, 0], [2, - 1]] \<and>
   normal example_rng (noise_mean example_config) (noise_variance example_config)
     (num_examples example_config) = Vec [0, 1 / 10] \<and>
   Max (set (concat [[1, 0], [2, - 1 :: real]])) = 2 \<and>
   generate_data example_config example_rng =
     Inr (Mat 2 [[1 / 2, 0], [1, - (1 / 2)]], Vec [26 / 5, 8])"
proof -
  have h1: "multivariate_normal example_rng (input_mean example_config) (input_variance example_config)
     (num_examples example_config) = Mat 2 [[1, 0], [2, - 1]]"
    by code_simp
  have h2: "normal example_rng (noise_mean example_config) (noise_variance example_config)
     (num_examples example_config) = Vec [0, 1 / 10]"
    by code_simp
  have h3: "list_all (\<lambda>r. length r = 2) [[1, 0], [2, - 1 :: real]]"
    by simp
  have h4: "[[1, 0], [2, - 1]] \<noteq> ([] :: real list list)"
    by simp
  have h5: "length [0, 1 / 10 :: real] = length [[1, 0], [2, - 1 :: real]]"
    by simp
  have m: "Max (set (concat [[1, 0], [2, - 1 :: real]])) = 2"
    by simp
  then have h6: "Max (set (concat [[1, 0], [2, - 1 :: real]])) \<noteq> 0"
    by simp
  have y: "map2 (+) (spec_predictions [2, - (34 / 10)] (42 / 10) [[1 / 2, 0], [1, - (1 / 2)]]) [0, 1 / 10] =
           [26 / 5, 8]"
    by code_simp
  from generate_data_result [OF h1 h2 h3 h4 h5 h6] show ?thesis
    using h1 h2 m y by simp
qed

text \<open>
  The claim as stated fails: the features returned are not the draws. The draws
  \<open>[[1, 0], [2, -1]]\<close> come back as \<open>[[0.5, 0], [1, -0.5]]\<close>.
\<close>

theorem generate_data_rescales_counterexample:
  "multivariate_normal example_rng (input_mean example_config) (input_variance example_config)
     (num_examples example_config) = Mat 2 [[1, 0], [2, - 1]] \<and>
   generate_data example_config example_rng =
     Inr (Mat 2 [[1 / 2, 0], [1, - (1 / 2)]], Vec [26 / 5, 8]) \<and>
   Mat 2 [[1 / 2, 0], [1, - (1 / 2)]] \<noteq> Mat 2 [[1, 0], [2, - 1]]"
  by code_simp

text \<open>
  Claim C6. For a weight vector of length \<open>d\<close>, a scalar bias and a feature matrix with
  rows of length \<open>d\<close>, the predictor returns the vector whose \<open>i\<close>-th entry is
  \<open>\<Sum>k. ws\<^sub>k * x\<^sub>i\<^sub>k + bias\<close>, and it has one entry for each row.
\<close>

theorem net_returns_predictions:
  assumes "var_w g = Vec ws" "var_b g = Scalar bv" "list_all (\<lambda>r. length r = length ws) rows"
  shows "net g (Mat (length ws) rows) = Inr (Vec (spec_predictions ws bv rows)) \<and>
         length (spec_predictions ws bv rows) = length rows"
  using assms by (simp add: net_vector) (simp add: spec_predictions_def)

theorem net_returns_predictions_witness:
  "var_w fitted_example = Vec [2, - (34 / 10)] \<and> var_b fitted_example = Scalar 0 \<and>
   list_all (\<lambda>r. length r = length [2, - (34 / 10) :: real]) [[1, 0], [0, 1 :: real]] \<and>
   net fitted_example (Mat 2 [[1, 0], [0, 1]]) = Inr (Vec [2, - (34 / 10)])"
proof -
  have h1: "var_w fitted_example = Vec [2, - (34 / 10)]"
    by code_simp
  have h2: "var_b fitted_example = Scalar 0"
    by code_simp
  have h3: "list_all (\<lambda>r. length r = length [2, - (34 / 10) :: real]) [[1, 0], [0, 1 :: real]]"
    by simp
  have p: "spec_predictions [2, - (34 / 10)] 0 [[1, 0], [0, 1]] = [2, - (34 / 10)]"
    by code_simp
  have l: "length [2, - (34 / 10) :: real] = 2"
    by simp
  from net_returns_predictions [OF h1 h2 h3] have
    "net fitted_example (Mat (length [2, - (34 / 10) :: real]) [[1, 0], [0, 1]]) =
       Inr (Vec (spec_predictions [2, - (34 / 10)] 0 [[1, 0], [0, 1]]))"
    by blast
  then have "net fitted_example (Mat 2 [[1, 0], [0, 1]]) = Inr (Vec [2, - (34 / 10)])"
    unfolding p l .
  with h1 h2 h3 show ?thesis
    by blast
qed

text \<open>
  Claim C7. For predictions and targets of the same length the loss is the mean of the
  squared element-wise differences.
\<close>

theorem square_loss_is_mean:
  assumes "length ps = length ts"
  shows "square_loss (Vec ps) (Vec ts) = Inr (spec_mean (map2 (\<lambda>p t. (p - t) ^ 2) ps ts))"
  using assms by (rule square_loss_same_length)

theorem square_loss_is_mean_witness:
  "length [1, 2, 3 :: real] = length [2, 4, 6 :: real] \<and>
   square_loss (Vec [1, 2, 3]) (Vec [2, 4, 6]) = Inr (Finite (14 / 3))"
proof -
  have h: "length [1, 2, 3 :: real] = length [2, 4, 6 :: real]"
    by simp
  have m: "spec_mean (map2 (\<lambda>p t. (p - t) ^ 2) [1, 2, 3] [2, 4, 6]) = Finite (14 / 3)"
    by code_simp
  from square_loss_is_mean [OF h] have
    "square_loss (Vec [1, 2, 3]) (Vec [2, 4, 6]) = Inr (Finite (14 / 3))"
    unfolding m .
  with h show ?thesis
    by blast
qed

text \<open>
  Claim C8, as amended. For predictions and targets of the same length that are not
  empty, the loss is a number that is not negative, and it is zero whenever the
  predictions equal the targets entry by entry. (The converse is left out: it holds in
  exact arithmetic only, since in float64 the square of a small difference underflows
  to zero.)
\<close>

theorem square_loss_nonneg_zero_when_equal:
  assumes "length ps = length ts" "ps \<noteq> []"
  shows "\<exists>v. square_loss (Vec ps) (Vec ts) = Inr (Finite v) \<and> 0 \<le> v \<and> (ps = ts \<longrightarrow> v = 0)"
proof -
  let ?sq = "map2 (\<lambda>p t. (p - t) ^ 2) ps ts"
  let ?v = "sum_list ?sq / real (length ?sq)"
  have ne: "?sq \<noteq> []"
    using assms by (cases ps; cases ts) simp_all
  have l: "square_loss (Vec ps) (Vec ts) = Inr (Finite ?v)"
    using assms(1) ne by (simp add: square_loss_same_length spec_mean_def)
  have v0: "0 \<le> ?v"
    by (intro divide_nonneg_nonneg sum_list_nonneg) auto
  have "?v = 0" if "ps = ts"
  proof -
    have "map2 (\<lambda>p t. (p - t) ^ 2) ts ts = map (\<lambda>t. 0) ts"
      by (simp add: zip_same_conv_map)
    with that show ?thesis
      by (simp add: sum_list_zeros)
  qed
  with l v0 show ?thesis by blast
qed

text \<open>
  The example of the specification: features \<open>[[1, 0], [0, 1]]\<close>, weights \<open>[2, -3.4]\<close>,
  bias \<open>0\<close> predict the targets \<open>[2, -3.4]\<close> exactly, and the loss is \<open>0\<close>.
\<close>

theorem square_loss_nonneg_zero_when_equal_witness:
  "net fitted_example (var_X fitted_example) = Inr (Vec [2, - (34 / 10)]) \<and>
   var_y fitted_example = Vec [2, - (34 / 10)] \<and>
   length [2, - (34 / 10) :: real] = length [2, - (34 / 10) :: real] \<and>
   [2, - (34 / 10)] \<noteq> ([] :: real list) \<and>
   square_loss (Vec [2, - (34 / 10)]) (Vec [2, - (34 / 10)]) = Inr (Finite 0)"
proof -
  have n: "net fitted_example (var_X fitted_example) = Inr (Vec [2, - (34 / 10)])"
    by code_simp
  have y: "var_y fitted_example = Vec [2, - (34 / 10)]"
    by code_simp
  have h1: "length [2, - (34 / 10) :: real] = length [2, - (34 / 10) :: real]"
    by simp
  have h2: "[2, - (34 / 10)] \<noteq> ([] :: real list)"
    by simp
  from square_loss_nonneg_zero_when_equal [OF h1 h2] obtain v where
    "square_loss (Vec [2, - (34 / 10)]) (Vec [2, - (34 / 10)]) = Inr (Finite v)" "v = 0"
    by blast
  with n y show ?thesis
    by simp
qed

text \<open>
  The claim as stated fails on empty arrays, which have equal length and equal
  entries: the mean of an empty array is \<^verbatim>\<open>nan\<close>, neither zero nor non-negative.
\<close>

theorem square_loss_empty_counterexample:
  "length ([] :: real list) = length ([] :: real list) \<and>
   square_loss (Vec []) (Vec []) = Inr NaN \<and>
   square_loss (Vec []) (Vec []) \<noteq> Inr (Finite 0)"
  by code_simp

text \<open>
  Claim C9. When the predictions of the current parameters equal the targets exactly
  (noise-free data and the generating parameters) and the first pass computes its
  candidate, the gradient consists of zeros and, for a positive tolerance, the loop
  converges in that first pass.
\<close>

theorem exact_fit_converges:
  assumes "net g (var_X g) = Inr (var_y g)" "rectangular (var_X g)" "0 < var_tolerance g"
    and "candidate g = Inr (new_w, loss)"
  shows "\<exists>gradient.
           get_gradient g (var_w g) (var_X g) (var_y g) = Inr (gradient, loss) \<and> zeros gradient \<and>
           gd_step g = Inr (CONVERGED, g\<lparr>printed := printed g @ [PrintConverged]\<rparr>) \<and>
           gd_loop g = Some (Inr (g\<lparr>printed := printed g @ [PrintConverged]\<rparr>))"
  using exact_fit_step [OF assms] by (auto simp: gd_loop_converged)

lemma real_fn_generating_example:
  "real_fn (var_X generating_example) = Inr (var_y generating_example)"
  by code_simp

theorem exact_fit_converges_witness:
  "net generating_example (var_X generating_example) = Inr (var_y generating_example) \<and>
   net generating_example (var_X generating_example) = real_fn (var_X generating_example) \<and>
   rectangular (var_X generating_example) \<and> 0 < var_tolerance generating_example \<and>
   candidate generating_example = Inr (Vec [2, - (34 / 10)], Finite 0) \<and>
   get_gradient generating_example (var_w generating_example) (var_X generating_example)
     (var_y generating_example) = Inr (Vec [0, 0], Finite 0) \<and>
   gd_loop generating_example = Some (Inr (generating_example\<lparr>printed := [PrintConverged]\<rparr>))"
proof -
  have h1: "net generating_example (var_X generating_example) = Inr (var_y generating_example)"
    by code_simp
  have h2: "rectangular (var_X generating_example)"
    by code_simp
  have h3: "0 < var_tolerance generating_example"
    by code_simp
  have h4: "candidate generating_example = Inr (Vec [2, - (34 / 10)], Finite 0)"
    by code_simp
  have g: "get_gradient generating_example (var_w generating_example) (var_X generating_example)
     (var_y generating_example) = Inr (Vec [0, 0], Finite 0)"
    by code_simp
  have p: "printed generating_example = []"
    by code_simp
  from exact_fit_converges [OF h1 h2 h3 h4] show ?thesis
    using h1 h2 h3 h4 g p real_fn_generating_example by simp
qed

text \<open>
  Claim C10, as amended. For a weight vector, a scalar bias, \<open>n > 0\<close> rows of features
  and \<open>n\<close> targets within the bound \<open>small_inputs\<close>, the loop run with learning rate \<open>0\<close>
  never changes the weights: the candidate of a pass is the current weights, and after
  any number of passes the weights are the initial ones, whatever the tolerance. If the
  tolerance is positive the first pass converges and the loop returns.
\<close>

theorem zero_learning_rate_keeps_weights:
  assumes "regression_shapes g ws bv rows ys" "rows \<noteq> []" "small_inputs g" "var_lr g = 0"
  shows "(\<exists>loss. candidate g = Inr (var_w g, loss)) \<and>
         (\<exists>st g'. gd_passes k g = Inr (st, g') \<and> var_w g' = var_w g) \<and>
         (0 < var_tolerance g \<longrightarrow>
            gd_step g = Inr (CONVERGED, g\<lparr>printed := printed g @ [PrintConverged]\<rparr>) \<and>
            gd_loop g = Some (Inr (g\<lparr>printed := printed g @ [PrintConverged]\<rparr>)))"
proof -
  from gd_step_lr_zero [OF assms(1,2,4)] obtain loss where
    c: "candidate g = Inr (var_w g, loss)" and
    s: "0 < var_tolerance g \<Longrightarrow>
        gd_step g = Inr (CONVERGED, g\<lparr>printed := printed g @ [PrintConverged]\<rparr>)"
    by auto
  from s have "0 < var_tolerance g \<Longrightarrow>
      gd_loop g = Some (Inr (g\<lparr>printed := printed g @ [PrintConverged]\<rparr>))"
    by (simp add: gd_loop_converged)
  with c s gd_passes_lr_zero [OF assms(1,2,4), of k] show ?thesis
    by blast
qed

theorem zero_learning_rate_keeps_weights_witness:
  "regression_shapes (example_globals\<lparr>var_lr := 0\<rparr>) [0, 0] 0 [[1, 0], [0, 1]] [2, - (34 / 10)] \<and>
   [[1, 0], [0, 1]] \<noteq> ([] :: real list list) \<and>
   small_inputs (example_globals\<lparr>var_lr := 0\<rparr>) \<and>
   var_lr (example_globals\<lparr>var_lr := 0\<rparr>) = 0 \<and>
   0 < var_tolerance (example_globals\<lparr>var_lr := 0\<rparr>) \<and>
   gd_step (example_globals\<lparr>var_lr := 0\<rparr>) =
     Inr (CONVERGED, example_globals\<lparr>var_lr := 0, printed := [PrintConverged]\<rparr>) \<and>
   gd_loop (example_globals\<lparr>var_lr := 0\<rparr>) =
     Some (Inr (example_globals\<lparr>var_lr := 0, printed := [PrintConverged]\<rparr>))"
proof -
  let ?g = "example_globals\<lparr>var_lr := 0\<rparr>"
  have h1: "regression_shapes ?g [0, 0] 0 [[1, 0], [0, 1]] [2, - (34 / 10)]"
    by code_simp
  have h2: "[[1, 0], [0, 1]] \<noteq> ([] :: real list list)"
    by simp
  have h3: "small_inputs ?g"
    by (simp add: small_inputs_def example_globals_def elems_def)
  have h4: "var_lr ?g = 0"
    by simp
  have h5: "0 < var_tolerance ?g"
    by code_simp
  have p: "printed example_globals = []"
    by code_simp
  from zero_learning_rate_keeps_weights [OF h1 h2 h3 h4, of 1] show ?thesis
    using h1 h2 h3 h4 h5 by (simp add: p)
qed

text \<open>
  The claim as stated fails: on a data set with no samples, learning rate \<open>0\<close> and a
  positive tolerance, the first pass raises \<^verbatim>\<open>ZeroDivisionError\<close> at \<^verbatim>\<open>1.0/len(x)\<close>
  and the loop ends with that exception instead of converging.
\<close>

theorem zero_learning_rate_empty_data_counterexample:
  "var_lr empty_data_example = 0 \<and> 0 < var_tolerance empty_data_example \<and>
   var_X empty_data_example = Mat 2 [] \<and> var_y empty_data_example = Vec [] \<and>
   gd_step empty_data_example = Inl ZeroDivision \<and>
   gd_loop empty_data_example = Some (Inl ZeroDivision)"
proof -
  have s: "gd_step empty_data_example = Inl ZeroDivision"
    by code_simp
  then have "gd_loop empty_data_example = Some (Inl ZeroDivision)"
    by (rule gd_loop_raises)
  moreover have "var_lr empty_data_example = 0" "0 < var_tolerance empty_data_example"
    "var_X empty_data_example = Mat 2 []" "var_y empty_data_example = Vec []"
    by code_simp+
  ultimately show ?thesis
    using s by blast
qed

end
